theory Spec2Isabelle
  imports Complex_Main
begin

section \<open>The monitoring core of the API status monitor\<close>

text \<open>
  A shallow embedding of \<^verbatim>\<open>api_monitor.py\<close> (class \<^verbatim>\<open>APIMonitor\<close> and the
  history handler of \<^verbatim>\<open>APIMonitorHandler\<close>) and of \<^verbatim>\<open>check_url\<close> of
  \<^verbatim>\<open>cli_monitor.py\<close>. The Python dictionaries that are used as structs
  (\<^verbatim>\<open>url_info\<close>, the result of \<^verbatim>\<open>check_url\<close>, an entry of \<^verbatim>\<open>status_data\<close>, a
  history entry) are records; \<^verbatim>\<open>status_data\<close>, which is keyed by url, is a map.
\<close>

subsection \<open>Data\<close>

text \<open>The four status strings \<^verbatim>\<open>'up'\<close>, \<^verbatim>\<open>'warning'\<close>, \<^verbatim>\<open>'down'\<close>, \<^verbatim>\<open>'unknown'\<close>.\<close>

datatype status = Up | Warning | Down | Unknown

text \<open>\<^verbatim>\<open>{'url': url, 'name': name, 'id': len(self.urls)}\<close>; the key \<^verbatim>\<open>id\<close> is
  the field \<open>id'\<close> (\<open>id\<close> is the identity function of HOL).\<close>

record url_info =
  url :: string
  name :: string
  id' :: int

text \<open>The dictionary returned by \<^verbatim>\<open>check_url\<close>.\<close>

record probe_result =
  status :: status
  response_time :: real
  status_code :: "int option"
  error :: "string option"

text \<open>The dictionary appended to a history by \<^verbatim>\<open>monitor_urls\<close>: it has the four keys
  \<^verbatim>\<open>timestamp\<close>, \<^verbatim>\<open>status\<close>, \<^verbatim>\<open>response_time\<close>, \<^verbatim>\<open>status_code\<close> (the last three are
  prefixed here, since the names are those of \<open>probe_result\<close>).\<close>

record history_entry =
  timestamp :: string
  h_status :: status
  h_response_time :: real
  h_status_code :: "int option"

text \<open>An entry of \<^verbatim>\<open>status_data\<close>: the four keys of a probe result, which
  \<^verbatim>\<open>update(result)\<close> overwrites, and \<^verbatim>\<open>last_check\<close> and \<^verbatim>\<open>history\<close>.\<close>

record status_entry = probe_result +
  last_check :: "string option"
  history :: "history_entry list"

text \<open>\<^verbatim>\<open>monitor_thread\<close> is \<^verbatim>\<open>None\<close> or the thread object that \<^verbatim>\<open>start_monitoring\<close>
  created with target \<^verbatim>\<open>monitor_urls\<close> and \<^verbatim>\<open>daemon=True\<close> and started at once.\<close>

datatype thread = Monitor_thread

record monitor =
  urls :: "url_info list"
  status_data :: "string \<rightharpoonup> status_entry"
  monitoring :: bool
  monitor_thread :: "thread option"

datatype py_error = KeyError string

subsection \<open>What a probe observes\<close>

text \<open>
  \<^verbatim>\<open>check_url\<close> reads the network and the clock. Its terminal outcome is one of: a response
  object whose \<^verbatim>\<open>getcode()\<close> is the given integer; an \<^verbatim>\<open>urllib.error.HTTPError\<close> with
  its \<^verbatim>\<open>code\<close> and \<^verbatim>\<open>reason\<close>; an \<^verbatim>\<open>urllib.error.URLError\<close> that is not an
  \<^verbatim>\<open>HTTPError\<close>, with \<^verbatim>\<open>str(e.reason)\<close>; any other \<^verbatim>\<open>Exception\<close> raised inside the
  \<^verbatim>\<open>try\<close> block, with \<^verbatim>\<open>str(e)\<close> (a malformed url, or a response of a scheme that
  has no status code, on which the comparison with 200 raises). What is not an
  \<^verbatim>\<open>Exception\<close>, such as a keyboard interrupt, is not caught and is no outcome of a probe.
  The two readings of \<^verbatim>\<open>time.time()\<close> (seconds) and
  the two readings of \<^verbatim>\<open>datetime.datetime.now().isoformat()\<close> made by the scheduler are
  part of the observation. Seconds are real numbers here: the arithmetic of the model is
  exact where Python's is binary floating point.
\<close>

datatype outcome =
    Response int
  | HTTPError int string
  | URLError string
  | Exception string

record probe_io =
  outcome :: outcome
  start_time :: real
  end_time :: real
  now_check :: string
  now_hist :: string

subsection \<open>Formatting and rounding\<close>

text \<open>\<^verbatim>\<open>str\<close> of a Python integer, as an f-string renders \<^verbatim>\<open>{e.code}\<close>.\<close>

definition digit_char :: "nat \<Rightarrow> char" where
  "digit_char d = ''0123456789'' ! d"

fun str_nat :: "nat \<Rightarrow> string" where
  "str_nat n = (if n < 10 then [digit_char n] else str_nat (n div 10) @ [digit_char (n mod 10)])"

declare str_nat.simps [simp del]

definition str_int :: "int \<Rightarrow> string" where
  "str_int i = (if i < 0 then CHR ''-'' # str_nat (nat (- i)) else str_nat (nat i))"

text \<open>\<^verbatim>\<open>round(x, 2)\<close>: the nearest multiple of 1/100, a tie going to the even one.\<close>

definition round_half_even :: "real \<Rightarrow> int" where
  "round_half_even x =
     (let f = \<lfloor>x\<rfloor>; d = x - of_int f
      in if d < 1 / 2 then f else if 1 / 2 < d then f + 1 else if even f then f else f + 1)"

definition round2 :: "real \<Rightarrow> real" where
  "round2 x = of_int (round_half_even (x * 100)) / 100"

subsection \<open>The registry: \<^verbatim>\<open>__init__\<close>, \<^verbatim>\<open>add_url\<close>, \<^verbatim>\<open>remove_url\<close>\<close>

definition init_monitor :: monitor where
  "init_monitor = \<lparr>urls = [], status_data = Map.empty, monitoring = False, monitor_thread = None\<rparr>"

definition initial_entry :: status_entry where
  "initial_entry =
     \<lparr>status = Unknown, response_time = 0, status_code = None, error = None,
      last_check = None, history = []\<rparr>"

definition add_url :: "string \<Rightarrow> string option \<Rightarrow> monitor \<Rightarrow> monitor" where
  "add_url u nm s =
     (let name' = (case nm of None \<Rightarrow> u | Some n \<Rightarrow> n);
          info = \<lparr>url = u, name = name', id' = int (length (urls s))\<rparr>
      in s\<lparr>urls := urls s @ [info], status_data := (status_data s)(u \<mapsto> initial_entry)\<rparr>)"

text \<open>\<^verbatim>\<open>for i, url_info in enumerate(self.urls): url_info['id'] = i\<close>\<close>

definition update_ids :: "url_info list \<Rightarrow> url_info list" where
  "update_ids xs = map (\<lambda>(i, info). info\<lparr>id' := int i\<rparr>) (enumerate 0 xs)"

text \<open>\<^verbatim>\<open>xs.pop(k)\<close> for an index \<open>k\<close> in range: the list without its element at \<open>k\<close>.\<close>

definition pop :: "nat \<Rightarrow> 'a list \<Rightarrow> 'a list" where
  "pop k xs = take k xs @ drop (Suc k) xs"

definition remove_url :: "int \<Rightarrow> monitor \<Rightarrow> monitor" where
  "remove_url url_id s =
     (if 0 \<le> url_id \<and> url_id < int (length (urls s)) then
        let u = url (urls s ! nat url_id);
            popped = pop (nat url_id) (urls s);
            sd = (if status_data s u \<noteq> None then (status_data s)(u := None) else status_data s)
        in s\<lparr>urls := update_ids popped, status_data := sd\<rparr>
      else s)"

subsection \<open>The prober: \<^verbatim>\<open>check_url\<close>\<close>

definition elapsed_ms :: "probe_io \<Rightarrow> real" where
  "elapsed_ms io = (end_time io - start_time io) * 1000"

definition check_url :: "probe_io \<Rightarrow> string \<Rightarrow> probe_result" where
  "check_url io u =
     (case outcome io of
        Response code \<Rightarrow>
          \<lparr>status = (if 200 \<le> code \<and> code < 400 then Up else Warning),
           response_time = round2 (elapsed_ms io),
           status_code = Some code,
           error = None\<rparr>
      | HTTPError code reason \<Rightarrow>
          \<lparr>status = Down,
           response_time = round2 (elapsed_ms io),
           status_code = Some code,
           error = Some (''HTTP Error: '' @ str_int code @ '' '' @ reason)\<rparr>
      | URLError reason \<Rightarrow>
          \<lparr>status = Down,
           response_time = round2 (elapsed_ms io),
           status_code = None,
           error = Some (''URL Error: '' @ reason)\<rparr>
      | Exception msg \<Rightarrow>
          \<lparr>status = Down,
           response_time = round2 (elapsed_ms io),
           status_code = None,
           error = Some (''Error: '' @ msg)\<rparr>)"


subsection \<open>The scheduler: \<^verbatim>\<open>monitor_urls\<close>, \<^verbatim>\<open>start_monitoring\<close>, \<^verbatim>\<open>stop_monitoring\<close>\<close>

text \<open>\<^verbatim>\<open>self.status_data[url].update(result)\<close>\<close>

definition update :: "status_entry \<Rightarrow> probe_result \<Rightarrow> status_entry" where
  "update e r =
     e\<lparr>status := status r, response_time := response_time r,
       status_code := status_code r, error := error r\<rparr>"

definition make_history_entry :: "probe_io \<Rightarrow> probe_result \<Rightarrow> history_entry" where
  "make_history_entry io result =
     \<lparr>timestamp = now_hist io,
      h_status = status result,
      h_response_time = response_time result,
      h_status_code = status_code result\<rparr>"

text \<open>\<^verbatim>\<open>history.append(entry)\<close>, then \<^verbatim>\<open>history.pop(0)\<close> if the length is above 50.\<close>

definition append_history :: "history_entry list \<Rightarrow> history_entry \<Rightarrow> history_entry list" where
  "append_history h entry =
     (let h1 = h @ [entry] in if 50 < length h1 then pop 0 h1 else h1)"

text \<open>
  The body of the \<^verbatim>\<open>for\<close> loop of \<^verbatim>\<open>monitor_urls\<close>, for one \<^verbatim>\<open>url_info\<close>. The
  subscript \<^verbatim>\<open>self.status_data[url]\<close> raises \<^verbatim>\<open>KeyError\<close> when the url has no entry;
  nothing has been written by then.
\<close>

definition monitor_body :: "probe_io \<Rightarrow> url_info \<Rightarrow> monitor \<Rightarrow> py_error + monitor" where
  "monitor_body io info s =
     (let u = url info;
          result = check_url io u
      in case status_data s u of
           None \<Rightarrow> Inl (KeyError u)
         | Some e \<Rightarrow>
             let e1 = update e result;
                 e2 = e1\<lparr>last_check := Some (now_check io)\<rparr>;
                 e3 = e2\<lparr>history := append_history (history e2) (make_history_entry io result)\<rparr>
             in Inr (s\<lparr>status_data := (status_data s)(u \<mapsto> e3)\<rparr>))"

text \<open>
  One pass of \<^verbatim>\<open>for url_info in self.urls\<close>. The \<open>k\<close>-th probe of the thread observes
  \<open>w k\<close>. An exception leaves the loop with the state reached so far.
\<close>

fun for_urls :: "(nat \<Rightarrow> probe_io) \<Rightarrow> nat \<Rightarrow> url_info list \<Rightarrow> monitor \<Rightarrow> monitor \<times> py_error option" where
  "for_urls w k [] s = (s, None)"
| "for_urls w k (info # infos) s =
     (case monitor_body (w k) info s of
        Inl e \<Rightarrow> (s, Some e)
      | Inr s' \<Rightarrow> for_urls w (Suc k) infos s')"

text \<open>
  \<^verbatim>\<open>while self.monitoring: ...; time.sleep(30)\<close>. The loop ends when another thread
  clears \<^verbatim>\<open>monitoring\<close>, so the model takes the number \<open>n\<close> of cycles that the thread
  gets to run; an exception ends the thread.
\<close>

fun monitor_urls :: "nat \<Rightarrow> (nat \<Rightarrow> probe_io) \<Rightarrow> nat \<Rightarrow> monitor \<Rightarrow> monitor \<times> py_error option" where
  "monitor_urls 0 w k s = (s, None)"
| "monitor_urls (Suc n) w k s =
     (if monitoring s then
        (case for_urls w k (urls s) s of
           (s', Some e) \<Rightarrow> (s', Some e)
         | (s', None) \<Rightarrow> monitor_urls n w (k + length (urls s)) s')
      else (s, None))"

definition start_monitoring :: "monitor \<Rightarrow> monitor" where
  "start_monitoring s =
     (if \<not> monitoring s \<and> urls s \<noteq> [] then
        s\<lparr>monitoring := True, monitor_thread := Some Monitor_thread\<rparr>
      else s)"

text \<open>\<^verbatim>\<open>join(timeout=5)\<close> waits for the thread for at most five seconds and writes
  nothing to the monitor.\<close>

definition join :: "thread \<Rightarrow> monitor \<Rightarrow> monitor" where
  "join t s = s"

definition stop_monitoring :: "monitor \<Rightarrow> monitor" where
  "stop_monitoring s =
     (let s1 = s\<lparr>monitoring := False\<rparr>
      in case monitor_thread s1 of None \<Rightarrow> s1 | Some t \<Rightarrow> join t s1)"

subsection \<open>The history handler: \<^verbatim>\<open>serve_history_json\<close>\<close>

text \<open>What the handler sends: status 200 with the history as its body, or
  \<^verbatim>\<open>send_error\<close> with a status.\<close>

datatype reply = Reply_200 "history_entry list" | Send_error nat

definition serve_history_json :: "monitor \<Rightarrow> int \<Rightarrow> reply" where
  "serve_history_json s url_id =
     (if 0 \<le> url_id \<and> url_id < int (length (urls s)) then
        let u = url (urls s ! nat url_id);
            h = (case status_data s u of None \<Rightarrow> [] | Some e \<Rightarrow> history e)
        in Reply_200 h
      else Send_error 404)"

subsection \<open>Runs of the core\<close>

text \<open>
  The calls that reach the core: the four operations of the interface, one execution of
  the loop body by the background thread for the target at some position, and \<open>n\<close>
  whole cycles of the background thread.
\<close>

datatype action =
    AddTarget string "string option"
  | RemoveTarget int
  | StartMonitoring
  | StopMonitoring
  | ProbeTarget probe_io nat
  | RunCycles nat "nat \<Rightarrow> probe_io"

fun exec :: "monitor \<Rightarrow> action \<Rightarrow> monitor" where
  "exec s (AddTarget u nm) = add_url u nm s"
| "exec s (RemoveTarget i) = remove_url i s"
| "exec s StartMonitoring = start_monitoring s"
| "exec s StopMonitoring = stop_monitoring s"
| "exec s (ProbeTarget io i) =
     (if i < length (urls s) then
        (case monitor_body io (urls s ! i) s of Inl e \<Rightarrow> s | Inr s' \<Rightarrow> s')
      else s)"
| "exec s (RunCycles n w) = fst (monitor_urls n w 0 s)"

definition run :: "action list \<Rightarrow> monitor" where
  "run acts = foldl exec init_monitor acts"

subsection \<open>Sample observations\<close>

text \<open>A probe that took an eighth of a second and ended in the given outcome.\<close>

definition observed :: "outcome \<Rightarrow> probe_io" where
  "observed out =
     \<lparr>outcome = out, start_time = 0, end_time = 1 / 8,
      now_check = ''2024-01-01T00:00:00.000001'', now_hist = ''2024-01-01T00:00:00.000002''\<rparr>"

text \<open>The monitor after three additions, the second with a display name.\<close>

definition three_targets :: monitor where
  "three_targets =
     add_url ''http://c'' None (add_url ''http://b'' (Some ''B'') (add_url ''http://a'' None init_monitor))"

text \<open>One target, monitoring started; and the same url added twice.\<close>

definition one_target :: monitor where
  "one_target = start_monitoring (add_url ''http://a'' None init_monitor)"

definition two_same :: monitor where
  "two_same = add_url ''http://a'' (Some ''again'') (add_url ''http://a'' None init_monitor)"

text \<open>The one target, probed once with the answer 200.\<close>

definition probed_once :: monitor where
  "probed_once = exec one_target (ProbeTarget (observed (Response 200)) 0)"

text \<open>A world in which every probe is answered with 200; the history timestamp of the
  \<open>k\<close>-th probe names \<open>k\<close>.\<close>

definition sample_world :: "nat \<Rightarrow> probe_io" where
  "sample_world k = (observed (Response 200))\<lparr>now_hist := ''cycle '' @ str_nat k\<rparr>"


section \<open>Properties\<close>

subsection \<open>Auxiliary facts\<close>




lemma length_update_ids [simp]: "length (update_ids xs) = length xs"
  by (simp add: update_ids_def)

lemma nth_update_ids [simp]: "i < length xs \<Longrightarrow> update_ids xs ! i = (xs ! i)\<lparr>id' := int i\<rparr>"
  by (simp add: update_ids_def nth_enumerate_eq)

lemma map_id_update_ids: "map id' (update_ids xs) = map int [0..<length xs]"
  by (rule nth_equalityI) simp_all

lemma map_url_update_ids [simp]: "map url (update_ids xs) = map url xs"
  by (rule nth_equalityI) simp_all

lemma map_name_update_ids [simp]: "map name (update_ids xs) = map name xs"
  by (rule nth_equalityI) simp_all

lemma length_pop: "k < length xs \<Longrightarrow> length (pop k xs) = length xs - 1"
  by (auto simp: pop_def)

lemma nth_pop: "k < length xs \<Longrightarrow> j < length xs - 1 \<Longrightarrow>
  pop k xs ! j = (if j < k then xs ! j else xs ! Suc j)"
  by (auto simp: pop_def nth_append)

lemma map_pop: "map f (pop k xs) = pop k (map f xs)"
  by (simp add: pop_def take_map drop_map)

lemma run_Nil [simp]: "run [] = init_monitor"
  by (simp add: run_def)

lemma run_snoc [simp]: "run (acts @ [a]) = exec (run acts) a"
  by (simp add: run_def)

lemma urls_monitor_body: "monitor_body io info s = Inr s' \<Longrightarrow> urls s' = urls s"
  by (auto simp: monitor_body_def Let_def split: option.splits)

lemma monitoring_monitor_body: "monitor_body io info s = Inr s' \<Longrightarrow> monitoring s' = monitoring s"
  by (auto simp: monitor_body_def Let_def split: option.splits)

lemma urls_for_urls: "urls (fst (for_urls w k infos s)) = urls s"
  by (induction infos arbitrary: k s) (auto split: sum.splits dest: urls_monitor_body)

lemma monitoring_for_urls: "monitoring (fst (for_urls w k infos s)) = monitoring s"
  by (induction infos arbitrary: k s) (auto split: sum.splits dest: monitoring_monitor_body)

lemma urls_monitor_urls: "urls (fst (monitor_urls n w k s)) = urls s"
proof (induction n arbitrary: k s)
  case 0
  show ?case by simp
next
  case (Suc n)
  show ?case
  proof (cases "for_urls w k (urls s) s")
    case (Pair s' err)
    then have "urls s' = urls s"
      using urls_for_urls [of w k "urls s" s] by simp
    with Pair Suc show ?thesis
      by (cases err) simp_all
  qed
qed

lemma urls_exec_probe: "urls (exec s (ProbeTarget io i)) = urls s"
  by (auto split: sum.splits dest: urls_monitor_body)

lemma ids_add_url:
  "map id' (urls s) = map int [0..<length (urls s)] \<Longrightarrow>
   map id' (urls (add_url u nm s)) = map int [0..<length (urls (add_url u nm s))]"
  by (simp add: add_url_def Let_def)

lemma ids_remove_url:
  "map id' (urls s) = map int [0..<length (urls s)] \<Longrightarrow>
   map id' (urls (remove_url i s)) = map int [0..<length (urls (remove_url i s))]"
  by (simp add: remove_url_def Let_def map_id_update_ids)

lemma ids_exec:
  "map id' (urls s) = map int [0..<length (urls s)] \<Longrightarrow>
   map id' (urls (exec s a)) = map int [0..<length (urls (exec s a))]"
proof (cases a)
  case (AddTarget u nm)
  assume "map id' (urls s) = map int [0..<length (urls s)]"
  then show ?thesis unfolding AddTarget exec.simps by (rule ids_add_url)
next
  case (RemoveTarget i)
  assume "map id' (urls s) = map int [0..<length (urls s)]"
  then show ?thesis unfolding RemoveTarget exec.simps by (rule ids_remove_url)
next
  case StartMonitoring
  assume "map id' (urls s) = map int [0..<length (urls s)]"
  then show ?thesis by (simp add: StartMonitoring start_monitoring_def)
next
  case StopMonitoring
  assume "map id' (urls s) = map int [0..<length (urls s)]"
  then show ?thesis by (simp add: StopMonitoring stop_monitoring_def join_def Let_def split: option.splits)
next
  case (ProbeTarget io i)
  assume "map id' (urls s) = map int [0..<length (urls s)]"
  then show ?thesis unfolding ProbeTarget urls_exec_probe .
next
  case (RunCycles n w)
  assume "map id' (urls s) = map int [0..<length (urls s)]"
  then show ?thesis by (simp add: RunCycles urls_monitor_urls)
qed

lemma ids_run: "map id' (urls (run acts)) = map int [0..<length (urls (run acts))]"
proof (induction acts rule: rev_induct)
  case Nil
  show ?case by (simp add: init_monitor_def)
next
  case (snoc a acts)
  then show ?case by (simp add: ids_exec)
qed
lemma remove_url_valid:
  assumes "0 \<le> i" "i < int (length (urls s))"
  shows "remove_url i s =
    s\<lparr>urls := update_ids (pop (nat i) (urls s)),
      status_data := (status_data s)(url (urls s ! nat i) := None)\<rparr>"
proof -
  have "(if status_data s u \<noteq> None then (status_data s)(u := None) else status_data s)
      = (status_data s)(u := None)" for u
    by auto
  with assms show ?thesis
    by (simp add: remove_url_def Let_def)
qed

lemma urls_add_url:
  "urls (add_url u nm s) =
     urls s @ [\<lparr>url = u, name = (case nm of None \<Rightarrow> u | Some n \<Rightarrow> n), id' = int (length (urls s))\<rparr>]"
  by (simp add: add_url_def Let_def)

lemma status_data_add_url:
  "status_data (add_url u nm s) = (status_data s)(u \<mapsto> initial_entry)"
  by (simp add: add_url_def Let_def)

lemma stop_monitoring_eq: "stop_monitoring s = s\<lparr>monitoring := False\<rparr>"
  by (simp add: stop_monitoring_def join_def Let_def split: option.splits)

lemma pop_0: "pop 0 xs = tl xs"
  by (simp add: pop_def drop_Suc)

lemma append_history_eq:
  "append_history h x = (if 50 \<le> length h then tl h @ [x] else h @ [x])"
  by (cases h) (auto simp: append_history_def pop_0 Let_def)

lemma last_append_history: "last (append_history h x) = x"
  by (simp add: append_history_eq)

lemma append_history_not_Nil: "append_history h x \<noteq> []"
  by (simp add: append_history_eq)

lemma length_append_history:
  "length h \<le> 50 \<Longrightarrow> length (append_history h x) \<le> 50"
  by (simp add: append_history_eq)

lemma monitor_body_Some:
  "status_data s (url info) = Some e \<Longrightarrow>
   monitor_body io info s =
     Inr (s\<lparr>status_data := (status_data s)(url info \<mapsto>
       (update e (check_url io (url info)))
         \<lparr>last_check := Some (now_check io),
          history := append_history (history e)
            (make_history_entry io (check_url io (url info)))\<rparr>)\<rparr>)"
  by (simp add: monitor_body_def Let_def update_def)

lemma monitor_body_None:
  "status_data s (url info) = None \<Longrightarrow> monitor_body io info s = Inl (KeyError (url info))"
  by (simp add: monitor_body_def Let_def)

lemma outcome_observed: "outcome (observed out) = out"
  by (simp add: observed_def)

lemma round2_eighth: "round2 (elapsed_ms (observed out)) = 125"
  by (simp add: round2_def round_half_even_def elapsed_ms_def observed_def)

lemma urls_one_target: "urls one_target = [\<lparr>url = ''http://a'', name = ''http://a'', id' = 0\<rparr>]"
  by (simp add: one_target_def start_monitoring_def urls_add_url init_monitor_def)

lemma status_data_one_target: "status_data one_target ''http://a'' = Some initial_entry"
  by (simp add: one_target_def start_monitoring_def status_data_add_url)

lemma check_url_observed_URLError:
  "check_url (observed (URLError r)) u =
     \<lparr>status = Down, response_time = 125, status_code = None, error = Some (''URL Error: '' @ r)\<rparr>"
  by (simp add: check_url_def round2_eighth outcome_observed)

lemma now_observed:
  "now_hist (observed out) = ''2024-01-01T00:00:00.000002''"
  "now_check (observed out) = ''2024-01-01T00:00:00.000001''"
  by (simp_all add: observed_def)




lemma fresh_id: "int (length (urls (run acts))) \<notin> set (map id' (urls (run acts)))"
proof -
  have "set (map id' (urls (run acts))) = int ` {0..<length (urls (run acts))}"
    by (subst ids_run) simp
  then show ?thesis by auto
qed

lemma urls_two_same:
  "urls two_same =
     [\<lparr>url = ''http://a'', name = ''http://a'', id' = 0\<rparr>,
      \<lparr>url = ''http://a'', name = ''again'', id' = 1\<rparr>]"
  by (simp add: two_same_def urls_add_url init_monitor_def)

lemma urls_probed_once: "urls probed_once = [\<lparr>url = ''http://a'', name = ''http://a'', id' = 0\<rparr>]"
  unfolding probed_once_def urls_exec_probe by (rule urls_one_target)

lemma status_data_probed_once:
  "status_data probed_once ''http://a'' =
     Some \<lparr>status = Up, response_time = 125, status_code = Some 200, error = None,
       last_check = Some ''2024-01-01T00:00:00.000001'',
       history = [\<lparr>timestamp = ''2024-01-01T00:00:00.000002'', h_status = Up,
         h_response_time = 125, h_status_code = Some 200\<rparr>]\<rparr>"
proof -
  have c: "check_url (observed (Response 200)) ''http://a'' =
      \<lparr>status = Up, response_time = 125, status_code = Some 200, error = None\<rparr>"
    by (simp add: check_url_def round2_eighth outcome_observed)
  have b: "monitor_body (observed (Response 200))
       \<lparr>url = ''http://a'', name = ''http://a'', id' = 0\<rparr> one_target =
     Inr (one_target\<lparr>status_data := (status_data one_target)(''http://a'' \<mapsto>
       (update initial_entry (check_url (observed (Response 200)) ''http://a''))
         \<lparr>last_check := Some (now_check (observed (Response 200))),
          history := append_history (history initial_entry)
            (make_history_entry (observed (Response 200))
               (check_url (observed (Response 200)) ''http://a''))\<rparr>)\<rparr>)"
    using monitor_body_Some [of one_target "\<lparr>url = ''http://a'', name = ''http://a'', id' = 0\<rparr>"
        initial_entry "observed (Response 200)"] status_data_one_target
    by simp
  show ?thesis
    by (simp add: probed_once_def urls_one_target b c now_observed append_history_eq
        make_history_entry_def update_def initial_entry_def)
qed

lemma append_history_drop:
  "length h \<le> 50 \<Longrightarrow> append_history h x = drop (Suc (length h) - 50) (h @ [x])"
proof (cases "length h = 50")
  case True
  then have "h \<noteq> []" by auto
  with True show ?thesis
    by (simp add: append_history_eq drop_Suc)
next
  case False
  assume "length h \<le> 50"
  with False have "length h < 50" by simp
  then show ?thesis
    by (simp add: append_history_eq)
qed

lemma foldl_append_history:
  "length h \<le> 50 \<Longrightarrow>
   foldl append_history h xs = drop (length h + length xs - 50) (h @ xs)"
proof (induction xs arbitrary: h)
  case Nil
  then show ?case by simp
next
  case (Cons x xs)
  have b: "length (append_history h x) \<le> 50"
    using Cons.prems by (rule length_append_history)
  show ?case
  proof (cases "length h = 50")
    case True
    then have ne: "h \<noteq> []" by auto
    have ah: "append_history h x = tl h @ [x]"
      using True by (simp add: append_history_eq)
    have "foldl append_history h (x # xs) = foldl append_history (tl h @ [x]) xs"
      by (simp add: ah)
    also have "\<dots> = drop (length (tl h @ [x]) + length xs - 50) ((tl h @ [x]) @ xs)"
      using b unfolding ah by (rule Cons.IH)
    also have "\<dots> = drop (length xs) (tl (h @ x # xs))"
    proof -
      have e1: "(tl h @ [x]) @ xs = tl (h @ x # xs)"
        using ne by simp
      have e2: "length (tl h @ [x]) + length xs - 50 = length xs"
        using True by simp
      show ?thesis by (simp only: e1 e2)
    qed
    also have "\<dots> = drop (length h + length (x # xs) - 50) (h @ x # xs)"
    proof -
      have e3: "length h + length (x # xs) - 50 = Suc (length xs)"
        using True by simp
      show ?thesis by (simp only: e3 drop_Suc)
    qed
    finally show ?thesis .
  next
    case False
    with Cons.prems have lt: "length h < 50" by simp
    have ah: "append_history h x = h @ [x]"
      using lt by (simp add: append_history_eq)
    have "foldl append_history h (x # xs) = foldl append_history (h @ [x]) xs"
      by (simp add: ah)
    also have "\<dots> = drop (length (h @ [x]) + length xs - 50) ((h @ [x]) @ xs)"
      using b unfolding ah by (rule Cons.IH)
    also have "\<dots> = drop (length h + length (x # xs) - 50) (h @ x # xs)"
      by simp
    finally show ?thesis .
  qed
qed

lemma bounded_add_url:
  assumes "\<forall>v e. status_data s v = Some e \<longrightarrow> length (history e) \<le> 50"
  shows "\<forall>v e. status_data (add_url u nm s) v = Some e \<longrightarrow> length (history e) \<le> 50"
  using assms by (auto simp: status_data_add_url initial_entry_def)

lemma bounded_remove_url:
  assumes "\<forall>v e. status_data s v = Some e \<longrightarrow> length (history e) \<le> 50"
  shows "\<forall>v e. status_data (remove_url i s) v = Some e \<longrightarrow> length (history e) \<le> 50"
  using assms by (auto simp: remove_url_def Let_def split: if_splits)

lemma bounded_monitor_body:
  assumes "\<forall>v e. status_data s v = Some e \<longrightarrow> length (history e) \<le> 50"
    and "monitor_body io info s = Inr s'"
  shows "\<forall>v e. status_data s' v = Some e \<longrightarrow> length (history e) \<le> 50"
proof (cases "status_data s (url info)")
  case None
  with assms(2) show ?thesis by (simp add: monitor_body_None)
next
  case (Some e0)
  then have "length (history e0) \<le> 50" using assms(1) by blast
  then have "length (append_history (history e0) x) \<le> 50" for x
    by (rule length_append_history)
  with assms Some show ?thesis
    by (auto simp: monitor_body_Some split: if_splits)
qed

lemma bounded_for_urls:
  assumes "\<forall>v e. status_data s v = Some e \<longrightarrow> length (history e) \<le> 50"
  shows "\<forall>v e. status_data (fst (for_urls w k infos s)) v = Some e \<longrightarrow> length (history e) \<le> 50"
  using assms
proof (induction infos arbitrary: k s)
  case Nil
  then show ?case by simp
next
  case (Cons info infos)
  show ?case
  proof (cases "monitor_body (w k) info s")
    case (Inl err)
    with Cons.prems show ?thesis by simp
  next
    case (Inr s')
    with Cons.prems have "\<forall>v e. status_data s' v = Some e \<longrightarrow> length (history e) \<le> 50"
      using bounded_monitor_body by blast
    then have "\<forall>v e. status_data (fst (for_urls w (Suc k) infos s')) v = Some e \<longrightarrow>
        length (history e) \<le> 50"
      by (rule Cons.IH)
    with Inr show ?thesis by simp
  qed
qed

lemma bounded_monitor_urls:
  assumes "\<forall>v e. status_data s v = Some e \<longrightarrow> length (history e) \<le> 50"
  shows "\<forall>v e. status_data (fst (monitor_urls n w k s)) v = Some e \<longrightarrow> length (history e) \<le> 50"
  using assms
proof (induction n arbitrary: k s)
  case 0
  then show ?case by simp
next
  case (Suc n)
  show ?case
  proof (cases "for_urls w k (urls s) s")
    case (Pair s' err)
    have s': "\<forall>v e. status_data s' v = Some e \<longrightarrow> length (history e) \<le> 50"
      using bounded_for_urls [OF Suc.prems, of w k "urls s"] Pair by simp
    show ?thesis
    proof (cases err)
      case None
      have "\<forall>v e. status_data (fst (monitor_urls n w (k + length (urls s)) s')) v = Some e \<longrightarrow>
          length (history e) \<le> 50"
        using s' by (rule Suc.IH)
      with Pair None Suc.prems show ?thesis by simp
    next
      case (Some e)
      with Pair s' Suc.prems show ?thesis by simp
    qed
  qed
qed

lemma bounded_exec:
  assumes "\<forall>v e. status_data s v = Some e \<longrightarrow> length (history e) \<le> 50"
  shows "\<forall>v e. status_data (exec s a) v = Some e \<longrightarrow> length (history e) \<le> 50"
proof (cases a)
  case (AddTarget u nm)
  show ?thesis unfolding AddTarget exec.simps using assms by (rule bounded_add_url)
next
  case (RemoveTarget i)
  show ?thesis unfolding RemoveTarget exec.simps using assms by (rule bounded_remove_url)
next
  case StartMonitoring
  with assms show ?thesis by (simp add: start_monitoring_def)
next
  case StopMonitoring
  with assms show ?thesis by (simp add: stop_monitoring_eq)
next
  case (ProbeTarget io i)
  show ?thesis
  proof (cases "monitor_body io (urls s ! i) s")
    case (Inl err)
    with assms ProbeTarget show ?thesis by simp
  next
    case (Inr s')
    then have "\<forall>v e. status_data s' v = Some e \<longrightarrow> length (history e) \<le> 50"
      using assms bounded_monitor_body by blast
    with assms ProbeTarget Inr show ?thesis by simp
  qed
next
  case (RunCycles n w)
  show ?thesis unfolding RunCycles exec.simps using assms by (rule bounded_monitor_urls)
qed

lemma bounded_run:
  "\<forall>v e. status_data (run acts) v = Some e \<longrightarrow> length (history e) \<le> 50"
proof (induction acts rule: rev_induct)
  case Nil
  show ?case by (simp add: init_monitor_def)
next
  case (snoc a acts)
  then show ?case unfolding run_snoc by (rule bounded_exec)
qed

lemma bounded_serve_history:
  assumes "serve_history_json (run acts) i = Reply_200 h"
  shows "length h \<le> 50"
proof (cases "status_data (run acts) (url (urls (run acts) ! nat i))")
  case None
  with assms show ?thesis
    by (auto simp: serve_history_json_def Let_def split: if_splits)
next
  case (Some e)
  then have "length (history e) \<le> 50" using bounded_run by blast
  with assms Some show ?thesis
    by (auto simp: serve_history_json_def Let_def split: if_splits)
qed

lemma monitor_urls_single:
  assumes "urls s = [t]" "monitoring s" "status_data s (url t) = Some e"
  shows "\<exists>s' e'. monitor_urls n w k s = (s', None) \<and> urls s' = [t] \<and> monitoring s' \<and>
     status_data s' (url t) = Some e' \<and>
     history e' = foldl append_history (history e)
       (map (\<lambda>i. make_history_entry (w i) (check_url (w i) (url t))) [k..<k + n])"
  using assms
proof (induction n arbitrary: k s e)
  case 0
  then show ?case by simp
next
  case (Suc n)
  let ?f = "\<lambda>i. make_history_entry (w i) (check_url (w i) (url t))"
  define e1 where "e1 = (update e (check_url (w k) (url t)))
         \<lparr>last_check := Some (now_check (w k)),
          history := append_history (history e) (?f k)\<rparr>"
  define s1 where "s1 = s\<lparr>status_data := (status_data s)(url t \<mapsto> e1)\<rparr>"
  have body: "monitor_body (w k) t s = Inr s1"
    unfolding s1_def e1_def using Suc.prems(3) by (rule monitor_body_Some)
  have s1: "urls s1 = [t]" "monitoring s1" "status_data s1 (url t) = Some e1"
    using Suc.prems by (simp_all add: s1_def)
  have h1: "history e1 = append_history (history e) (?f k)"
    by (simp add: e1_def)
  from Suc.IH [OF s1, of "Suc k"] obtain s' e' where
    r: "monitor_urls n w (Suc k) s1 = (s', None)" "urls s' = [t]" "monitoring s'"
      "status_data s' (url t) = Some e'"
      "history e' = foldl append_history (history e1) (map ?f [Suc k..<Suc k + n])"
    by blast
  have step: "monitor_urls (Suc n) w k s = monitor_urls n w (Suc k) s1"
    using Suc.prems(1,2) body by simp
  have upt: "[k..<k + Suc n] = k # [Suc k..<Suc k + n]"
    by (simp add: upt_conv_Cons)
  have "history e' = foldl append_history (history e) (map ?f [k..<k + Suc n])"
    unfolding upt using r(5) h1 by simp
  with r step show ?case by simp
qed

lemma run_probed_once:
  "run [AddTarget ''http://a'' None, StartMonitoring, ProbeTarget (observed (Response 200)) 0] =
     probed_once"
  by (simp add: run_def probed_once_def one_target_def)

lemma monitoring_one_target: "monitoring one_target"
  by (simp add: one_target_def start_monitoring_def urls_add_url)


subsection \<open>Classification of probe outcomes\<close>

text \<open>
  Claim C1. \<^verbatim>\<open>check_url\<close> classifies every terminal outcome: a response with a status
  code from 200 up to 399 is \<open>Up\<close>; a response with a code of 400 or more, or below 200,
  is \<open>Warning\<close>; an \<^verbatim>\<open>HTTPError\<close> is \<open>Down\<close>, keeps its code, and its message is made of
  the code and the reason phrase; an \<^verbatim>\<open>URLError\<close> is \<open>Down\<close> without a code, with a
  message made of the reason; any other exception is \<open>Down\<close> without a code, with a
  generic message.
\<close>

theorem probe_classification:
  "(outcome io = Response c \<and> 200 \<le> c \<and> c < 400 \<longrightarrow>
      status (check_url io u) = Up \<and> status_code (check_url io u) = Some c \<and>
      error (check_url io u) = None) \<and>
   (outcome io = Response c \<and> (400 \<le> c \<or> c < 200) \<longrightarrow>
      status (check_url io u) = Warning \<and> status_code (check_url io u) = Some c \<and>
      error (check_url io u) = None) \<and>
   (outcome io = HTTPError c r \<longrightarrow>
      status (check_url io u) = Down \<and> status_code (check_url io u) = Some c \<and>
      error (check_url io u) = Some (''HTTP Error: '' @ str_int c @ '' '' @ r)) \<and>
   (outcome io = URLError r \<longrightarrow>
      status (check_url io u) = Down \<and> status_code (check_url io u) = None \<and>
      error (check_url io u) = Some (''URL Error: '' @ r)) \<and>
   (outcome io = Exception m \<longrightarrow>
      status (check_url io u) = Down \<and> status_code (check_url io u) = None \<and>
      error (check_url io u) = Some (''Error: '' @ m))"
  by (auto simp: check_url_def)

theorem probe_classification_witness:
  "status (check_url (observed (Response 301)) ''http://a'') = Up \<and>
   status (check_url (observed (Response 404)) ''http://a'') = Warning \<and>
   status (check_url (observed (Response 100)) ''http://a'') = Warning \<and>
   status (check_url (observed (HTTPError 500 ''Internal Server Error'')) ''http://a'') = Down \<and>
   status_code (check_url (observed (HTTPError 500 ''Internal Server Error'')) ''http://a'') =
     Some 500 \<and>
   error (check_url (observed (HTTPError 500 ''Internal Server Error'')) ''http://a'') =
     Some ''HTTP Error: 500 Internal Server Error'' \<and>
   status (check_url (observed (URLError ''timed out'')) ''http://a'') = Down \<and>
   status_code (check_url (observed (URLError ''timed out'')) ''http://a'') = None \<and>
   error (check_url (observed (URLError ''timed out'')) ''http://a'') =
     Some ''URL Error: timed out'' \<and>
   status (check_url (observed (Exception ''unknown url type'')) ''a'') = Down \<and>
   status_code (check_url (observed (Exception ''unknown url type'')) ''a'') = None \<and>
   error (check_url (observed (Exception ''unknown url type'')) ''a'') =
     Some ''Error: unknown url type''"
proof -
  have s500: "str_int 500 = ''500''"
    by (simp add: str_int_def str_nat.simps digit_char_def)
  show ?thesis
    using probe_classification [of "observed (Response 301)" 301 "''http://a''"]
      probe_classification [of "observed (Response 404)" 404 "''http://a''"]
      probe_classification [of "observed (Response 100)" 100 "''http://a''"]
      probe_classification [of "observed (HTTPError 500 ''Internal Server Error'')" 500
        "''http://a''" "''Internal Server Error''"]
      probe_classification [of "observed (URLError ''timed out'')" 0 "''http://a''" "''timed out''"]
      probe_classification [of "observed (Exception ''unknown url type'')" 0 "''a''" "[]"
        "''unknown url type''"]
    by (simp add: observed_def s500)
qed


subsection \<open>The fields of a probe result\<close>








subsection \<open>The bounded history\<close>

text \<open>
  Claim C3. In every state that the core reaches from the empty monitor, no history has
  more than 50 entries, and the history handler never serves more than 50. One execution of
  the scheduler's loop body puts the new entry at the end of the target's history and,
  when the length is then above 50, removes the entry at index 0; so a history lists
  results from the oldest to the newest. When the scheduler runs \<open>n\<close> cycles against a
  single target, the history is the old history followed by the \<open>n\<close> new entries, cut
  down to its last 50; from 51 cycles on it has exactly 50 entries, the 50 most recent
  results in the order they were made. (The loop body is taken as one step: an append and
  the removal that follows it are not interleaved with a reader.)
\<close>

theorem history_bounded_fifo:
  "(\<forall>v e. status_data (run acts) v = Some e \<longrightarrow> length (history e) \<le> 50) \<and>
   (\<forall>h. serve_history_json (run acts) i = Reply_200 h \<longrightarrow> length h \<le> 50) \<and>
   (status_data s (url info) = Some e \<longrightarrow>
      (\<exists>s' e'. monitor_body io info s = Inr s' \<and> status_data s' (url info) = Some e' \<and>
         history e' =
           (let h1 = history e @ [make_history_entry io (check_url io (url info))]
            in if 50 < length h1 then tl h1 else h1))) \<and>
   (urls s = [t] \<and> monitoring s \<and> status_data s (url t) = Some e \<and> length (history e) \<le> 50 \<longrightarrow>
      (\<exists>s' e'. monitor_urls n w k s = (s', None) \<and> status_data s' (url t) = Some e' \<and>
         history e' =
           drop (length (history e) + n - 50)
             (history e @ map (\<lambda>i. make_history_entry (w i) (check_url (w i) (url t))) [k..<k + n]) \<and>
         (51 \<le> n \<longrightarrow>
            length (history e') = 50 \<and>
            history e' =
              drop (n - 50) (map (\<lambda>i. make_history_entry (w i) (check_url (w i) (url t))) [k..<k + n]))))"
proof (intro conjI impI)
  show "\<forall>v e. status_data (run acts) v = Some e \<longrightarrow> length (history e) \<le> 50"
    by (rule bounded_run)
  show "\<forall>h. serve_history_json (run acts) i = Reply_200 h \<longrightarrow> length h \<le> 50"
    using bounded_serve_history by blast
next
  assume "status_data s (url info) = Some e"
  then show "\<exists>s' e'. monitor_body io info s = Inr s' \<and> status_data s' (url info) = Some e' \<and>
         history e' =
           (let h1 = history e @ [make_history_entry io (check_url io (url info))]
            in if 50 < length h1 then tl h1 else h1)"
    by (simp add: monitor_body_Some append_history_def pop_0 Let_def)
next
  let ?rs = "map (\<lambda>i. make_history_entry (w i) (check_url (w i) (url t))) [k..<k + n]"
  assume a: "urls s = [t] \<and> monitoring s \<and> status_data s (url t) = Some e \<and> length (history e) \<le> 50"
  then obtain s' e' where
    r: "monitor_urls n w k s = (s', None)" "status_data s' (url t) = Some e'"
      "history e' = foldl append_history (history e) ?rs"
    using monitor_urls_single [of s t e n w k] by blast
  have h: "history e' = drop (length (history e) + n - 50) (history e @ ?rs)"
    using a r(3) by (simp add: foldl_append_history)
  have big: "length (history e') = 50 \<and> history e' = drop (n - 50) ?rs" if n: "51 \<le> n"
  proof -
    have "n - 50 \<le> length ?rs" by simp
    have d: "length (history e) + n - 50 - length (history e) = n - 50"
      using n by simp
    have l: "length (history e) \<le> length (history e) + n - 50"
      using n by simp
    have "history e' = drop (n - 50) ?rs"
      unfolding h using l d by (simp only: drop_append drop_all append_Nil)
    moreover have "length (drop (n - 50) ?rs) = 50"
      using n by simp
    ultimately show ?thesis by simp
  qed
  from r h big
  show "\<exists>s' e'. monitor_urls n w k s = (s', None) \<and> status_data s' (url t) = Some e' \<and>
         history e' = drop (length (history e) + n - 50) (history e @ ?rs) \<and>
         (51 \<le> n \<longrightarrow> length (history e') = 50 \<and> history e' = drop (n - 50) ?rs)"
    by blast
qed

theorem history_bounded_fifo_witness:
  "(\<exists>e. status_data (run [AddTarget ''http://a'' None, StartMonitoring,
          ProbeTarget (observed (Response 200)) 0]) ''http://a'' = Some e \<and>
        length (history e) = 1) \<and>
   (\<exists>h. serve_history_json (run [AddTarget ''http://a'' None, StartMonitoring,
          ProbeTarget (observed (Response 200)) 0]) 0 = Reply_200 h \<and> length h \<le> 50) \<and>
   status_data one_target ''http://a'' = Some initial_entry \<and>
   (\<exists>s' e'. monitor_body (observed (Response 200))
        \<lparr>url = ''http://a'', name = ''http://a'', id' = 0\<rparr> one_target = Inr s' \<and>
      status_data s' ''http://a'' = Some e' \<and> length (history e') = 1) \<and>
   urls one_target = [\<lparr>url = ''http://a'', name = ''http://a'', id' = 0\<rparr>] \<and>
   monitoring one_target \<and>
   (\<exists>s' e'. monitor_urls 51 sample_world 0 one_target = (s', None) \<and>
      status_data s' ''http://a'' = Some e' \<and>
      length (history e') = 50 \<and>
      history e' =
        map (\<lambda>i. make_history_entry (sample_world i) (check_url (sample_world i) ''http://a''))
          [1..<51])"
proof -
  let ?acts = "[AddTarget ''http://a'' None, StartMonitoring,
          ProbeTarget (observed (Response 200)) 0]"
  let ?t = "\<lparr>url = ''http://a'', name = ''http://a'', id' = 0\<rparr>"
  have h0: "history initial_entry = []"
    by (simp add: initial_entry_def)
  have sh: "serve_history_json probed_once 0 =
      Reply_200 [\<lparr>timestamp = ''2024-01-01T00:00:00.000002'', h_status = Up,
         h_response_time = 125, h_status_code = Some 200\<rparr>]"
    by (simp add: serve_history_json_def urls_probed_once status_data_probed_once)
  have a: "\<exists>e. status_data (run ?acts) ''http://a'' = Some e \<and> length (history e) = 1"
    by (simp add: run_probed_once status_data_probed_once)
  note inst = history_bounded_fifo [where acts = ?acts and i = 0 and s = one_target
      and info = ?t and e = initial_entry and io = "observed (Response 200)" and t = ?t
      and n = 51 and w = sample_world and k = 0]
  have b: "\<exists>h. serve_history_json (run ?acts) 0 = Reply_200 h \<and> length h \<le> 50"
    using inst sh by (simp add: run_probed_once)
  have c: "\<exists>s' e'. monitor_body (observed (Response 200)) ?t one_target = Inr s' \<and>
      status_data s' ''http://a'' = Some e' \<and> length (history e') = 1"
    using inst
    by (auto simp: status_data_one_target h0 Let_def simp del: upt_rec_numeral)
  have d: "\<exists>s' e'. monitor_urls 51 sample_world 0 one_target = (s', None) \<and>
      status_data s' ''http://a'' = Some e' \<and>
      length (history e') = 50 \<and>
      history e' =
        map (\<lambda>i. make_history_entry (sample_world i) (check_url (sample_world i) ''http://a''))
          [1..<51]"
    using inst
    by (auto simp: urls_one_target monitoring_one_target status_data_one_target h0 drop_map
        simp del: upt_rec_numeral)
  from a b c d show ?thesis
    by (simp add: status_data_one_target urls_one_target monitoring_one_target
        del: upt_rec_numeral)
qed


subsection \<open>What a history entry holds\<close>

text \<open>
  A history entry does not hold the error message of its probe. Two probes of the same
  target that fail with different messages (a timeout, a refused connection) leave the
  same history, as the history handler serves it: an entry with the four fields
  timestamp, status, response time and status code.
\<close>

theorem history_entry_fields_counterexample:
  "serve_history_json
     (exec (start_monitoring (add_url ''http://a'' None init_monitor))
        (ProbeTarget (observed (URLError ''timed out'')) 0)) 0 =
     Reply_200 [\<lparr>timestamp = ''2024-01-01T00:00:00.000002'', h_status = Down,
                 h_response_time = 125, h_status_code = None\<rparr>] \<and>
   serve_history_json
     (exec (start_monitoring (add_url ''http://a'' None init_monitor))
        (ProbeTarget (observed (URLError ''Connection refused'')) 0)) 0 =
     Reply_200 [\<lparr>timestamp = ''2024-01-01T00:00:00.000002'', h_status = Down,
                 h_response_time = 125, h_status_code = None\<rparr>] \<and>
   error (check_url (observed (URLError ''timed out'')) ''http://a'') =
     Some ''URL Error: timed out'' \<and>
   error (check_url (observed (URLError ''Connection refused'')) ''http://a'') =
     Some ''URL Error: Connection refused''"
proof -
  let ?s = "start_monitoring (add_url ''http://a'' None init_monitor)"
  have u: "urls ?s = [\<lparr>url = ''http://a'', name = ''http://a'', id' = 0\<rparr>]"
    by (simp add: start_monitoring_def urls_add_url init_monitor_def)
  have sd: "status_data ?s ''http://a'' = Some initial_entry"
    by (simp add: start_monitoring_def status_data_add_url)
  have b: "monitor_body io \<lparr>url = ''http://a'', name = ''http://a'', id' = 0\<rparr> ?s =
     Inr (?s\<lparr>status_data := (status_data ?s)(''http://a'' \<mapsto>
       (update initial_entry (check_url io ''http://a''))
         \<lparr>last_check := Some (now_check io),
          history := append_history (history initial_entry)
            (make_history_entry io (check_url io ''http://a''))\<rparr>)\<rparr>)" for io
    using monitor_body_Some [of ?s "\<lparr>url = ''http://a'', name = ''http://a'', id' = 0\<rparr>"
        initial_entry io] sd
    by simp
  have h: "history initial_entry = []"
    by (simp add: initial_entry_def)
  have c: "check_url (observed (URLError r)) ''http://a'' =
      \<lparr>status = Down, response_time = 125, status_code = None, error = Some (''URL Error: '' @ r)\<rparr>" for r
    by (simp add: check_url_def round2_eighth outcome_observed)
  have n: "now_hist (observed out) = ''2024-01-01T00:00:00.000002''" for out
    by (simp add: observed_def)
  show ?thesis
    by (simp add: serve_history_json_def u b h c n append_history_eq make_history_entry_def)
qed

text \<open>
  Claim C9, amended. Every entry that the scheduler appends to a history holds the
  timestamp, the status, the response time and the optional status code of its probe, and
  no error message. The error message of a probe is kept in the target's current state
  only (the entry of \<^verbatim>\<open>status_data\<close>, with the status, the response time, the status
  code and the time of the check), where the next probe of that url overwrites it.
\<close>

theorem history_entry_fields:
  "status_data s (url info) = Some e \<longrightarrow>
     (\<exists>s' e'. monitor_body io info s = Inr s' \<and> status_data s' (url info) = Some e' \<and>
        history e' \<noteq> [] \<and>
        last (history e') =
          \<lparr>timestamp = now_hist io,
           h_status = status (check_url io (url info)),
           h_response_time = response_time (check_url io (url info)),
           h_status_code = status_code (check_url io (url info))\<rparr> \<and>
        status e' = status (check_url io (url info)) \<and>
        response_time e' = response_time (check_url io (url info)) \<and>
        status_code e' = status_code (check_url io (url info)) \<and>
        error e' = error (check_url io (url info)) \<and>
        last_check e' = Some (now_check io))"
  by (simp add: monitor_body_Some last_append_history append_history_not_Nil update_def
      make_history_entry_def)

theorem history_entry_fields_witness:
  "status_data one_target ''http://a'' = Some initial_entry \<and>
   (\<exists>s' e'. monitor_body (observed (URLError ''timed out''))
        \<lparr>url = ''http://a'', name = ''http://a'', id' = 0\<rparr> one_target = Inr s' \<and>
      status_data s' ''http://a'' = Some e' \<and>
      last (history e') =
        \<lparr>timestamp = ''2024-01-01T00:00:00.000002'', h_status = Down,
         h_response_time = 125, h_status_code = None\<rparr> \<and>
      error e' = Some ''URL Error: timed out'')"
  using history_entry_fields [of one_target "\<lparr>url = ''http://a'', name = ''http://a'', id' = 0\<rparr>"
      initial_entry "observed (URLError ''timed out'')"]
  by (simp add: status_data_one_target check_url_observed_URLError now_observed) blast


subsection \<open>The registry\<close>

text \<open>
  Claim C4. After every sequence of calls from the empty monitor (additions and removals
  of targets, and also starts, stops and probes), the ids of the registered targets are
  0, 1, ..., n - 1 in the order of the list: each target's id is its position.
\<close>


theorem registry_ids_contiguous:
  "map id' (urls (run acts)) = map int [0..<length (urls (run acts))] \<and>
   (\<forall>i<length (urls (run acts)). id' (urls (run acts) ! i) = int i)"
proof
  show ids: "map id' (urls (run acts)) = map int [0..<length (urls (run acts))]"
    by (rule ids_run)
  show "\<forall>i<length (urls (run acts)). id' (urls (run acts) ! i) = int i"
  proof (intro allI impI)
    fix i assume i: "i < length (urls (run acts))"
    then have "id' (urls (run acts) ! i) = map id' (urls (run acts)) ! i" by simp
    also have "\<dots> = int i" using i by (simp add: ids)
    finally show "id' (urls (run acts) ! i) = int i" .
  qed
qed

theorem registry_ids_contiguous_witness:
  "map id' (urls (run [AddTarget ''a'' None, AddTarget ''b'' (Some ''B''), AddTarget ''c'' None,
       RemoveTarget 1])) = [0, 1] \<and>
   id' (urls (run [AddTarget ''a'' None, AddTarget ''b'' (Some ''B''), AddTarget ''c'' None,
       RemoveTarget 1]) ! 1) = 1 \<and>
   map url (urls (run [AddTarget ''a'' None, AddTarget ''b'' (Some ''B''), AddTarget ''c'' None,
       RemoveTarget 1])) = [''a'', ''c'']"
proof -
  let ?acts = "[AddTarget ''a'' None, AddTarget ''b'' (Some ''B''), AddTarget ''c'' None,
       RemoveTarget 1]"
  have len: "length (urls (run ?acts)) = 2" and u: "map url (urls (run ?acts)) = [''a'', ''c'']"
    by (simp_all add: run_def init_monitor_def add_url_def remove_url_def pop_def Let_def)
  have "[0..<2] = [0, Suc 0]" by (simp add: upt_rec)
  with registry_ids_contiguous [of ?acts] len u show ?thesis by simp
qed

text \<open>
  Claim C5. \<^verbatim>\<open>remove_url\<close> with an id outside the range of the list leaves the whole
  monitor as it is. With a valid id it takes the target at that position out of the list,
  keeps the other targets in their order, gives every remaining target its position as id,
  deletes the entry of the removed target's url from \<^verbatim>\<open>status_data\<close> (a lookup of it
  finds nothing), and touches neither the other entries nor \<^verbatim>\<open>monitoring\<close> nor the
  thread. After three additions and the removal of id 1, the first and the third target
  remain, with ids 0 and 1.
\<close>

theorem remove_url_effect:
  "(\<not> (0 \<le> i \<and> i < int (length (urls s))) \<longrightarrow> remove_url i s = s) \<and>
   (0 \<le> i \<and> i < int (length (urls s)) \<longrightarrow>
      length (urls (remove_url i s)) = length (urls s) - 1 \<and>
      (\<forall>j<length (urls s) - 1.
         urls (remove_url i s) ! j =
           (if j < nat i then urls s ! j else urls s ! Suc j)\<lparr>id' := int j\<rparr>) \<and>
      map url (urls (remove_url i s)) = pop (nat i) (map url (urls s)) \<and>
      map name (urls (remove_url i s)) = pop (nat i) (map name (urls s)) \<and>
      map id' (urls (remove_url i s)) = map int [0..<length (urls s) - 1] \<and>
      status_data (remove_url i s) (url (urls s ! nat i)) = None \<and>
      (\<forall>v. v \<noteq> url (urls s ! nat i) \<longrightarrow> status_data (remove_url i s) v = status_data s v) \<and>
      monitoring (remove_url i s) = monitoring s \<and>
      monitor_thread (remove_url i s) = monitor_thread s) \<and>
   urls (remove_url 1 (add_url u3 n3 (add_url u2 n2 (add_url u1 n1 init_monitor)))) =
     [\<lparr>url = u1, name = (case n1 of None \<Rightarrow> u1 | Some n \<Rightarrow> n), id' = 0\<rparr>,
      \<lparr>url = u3, name = (case n3 of None \<Rightarrow> u3 | Some n \<Rightarrow> n), id' = 1\<rparr>] \<and>
   status_data (remove_url 1 (add_url u3 n3 (add_url u2 n2 (add_url u1 n1 init_monitor)))) u2 = None"
proof (intro conjI impI)
  assume "\<not> (0 \<le> i \<and> i < int (length (urls s)))"
  then show "remove_url i s = s"
    by (auto simp: remove_url_def)
next
  assume v: "0 \<le> i \<and> i < int (length (urls s))"
  then have k: "nat i < length (urls s)" by linarith
  have eq: "remove_url i s =
    s\<lparr>urls := update_ids (pop (nat i) (urls s)),
      status_data := (status_data s)(url (urls s ! nat i) := None)\<rparr>"
    using v by (simp add: remove_url_valid)
  show "length (urls (remove_url i s)) = length (urls s) - 1"
    by (simp add: eq length_pop k)
  show "\<forall>j<length (urls s) - 1.
         urls (remove_url i s) ! j =
           (if j < nat i then urls s ! j else urls s ! Suc j)\<lparr>id' := int j\<rparr>"
    by (simp add: eq length_pop nth_pop k)
  show "map url (urls (remove_url i s)) = pop (nat i) (map url (urls s))"
    by (simp add: eq map_pop)
  show "map name (urls (remove_url i s)) = pop (nat i) (map name (urls s))"
    by (simp add: eq map_pop)
  show "map id' (urls (remove_url i s)) = map int [0..<length (urls s) - 1]"
    by (simp add: eq map_id_update_ids length_pop k)
  show "status_data (remove_url i s) (url (urls s ! nat i)) = None"
    by (simp add: eq)
  show "\<forall>v. v \<noteq> url (urls s ! nat i) \<longrightarrow> status_data (remove_url i s) v = status_data s v"
    by (simp add: eq)
  show "monitoring (remove_url i s) = monitoring s"
    by (simp add: eq)
  show "monitor_thread (remove_url i s) = monitor_thread s"
    by (simp add: eq)
next
  show "urls (remove_url 1 (add_url u3 n3 (add_url u2 n2 (add_url u1 n1 init_monitor)))) =
     [\<lparr>url = u1, name = (case n1 of None \<Rightarrow> u1 | Some n \<Rightarrow> n), id' = 0\<rparr>,
      \<lparr>url = u3, name = (case n3 of None \<Rightarrow> u3 | Some n \<Rightarrow> n), id' = 1\<rparr>]"
    by (simp add: remove_url_valid urls_add_url status_data_add_url init_monitor_def pop_def
        update_ids_def)
next
  show "status_data (remove_url 1 (add_url u3 n3 (add_url u2 n2 (add_url u1 n1 init_monitor)))) u2 = None"
    by (simp add: remove_url_valid urls_add_url status_data_add_url init_monitor_def)
qed

theorem remove_url_effect_witness:
  "remove_url 3 three_targets = three_targets \<and>
   remove_url (- 1) three_targets = three_targets \<and>
   map url (urls (remove_url 1 three_targets)) = [''http://a'', ''http://c''] \<and>
   map name (urls (remove_url 1 three_targets)) = [''http://a'', ''http://c''] \<and>
   map id' (urls (remove_url 1 three_targets)) = [0, 1] \<and>
   urls (remove_url 1 three_targets) ! 1 = \<lparr>url = ''http://c'', name = ''http://c'', id' = 1\<rparr> \<and>
   status_data (remove_url 1 three_targets) ''http://b'' = None \<and>
   status_data (remove_url 1 three_targets) ''http://c'' = Some initial_entry \<and>
   monitoring (remove_url 1 three_targets) = False"
proof -
  have u: "urls three_targets =
      [\<lparr>url = ''http://a'', name = ''http://a'', id' = 0\<rparr>,
       \<lparr>url = ''http://b'', name = ''B'', id' = 1\<rparr>,
       \<lparr>url = ''http://c'', name = ''http://c'', id' = 2\<rparr>]"
    by (simp add: three_targets_def urls_add_url init_monitor_def)
  have sd: "status_data three_targets ''http://c'' = Some initial_entry"
    by (simp add: three_targets_def status_data_add_url)
  have m: "monitoring three_targets = False"
    by (simp add: three_targets_def add_url_def init_monitor_def Let_def)
  have upt: "[0..<2] = [0, Suc 0]" by (simp add: upt_rec)
  show ?thesis
    using remove_url_effect [of 3 three_targets] remove_url_effect [of "- 1" three_targets]
      remove_url_effect [of 1 three_targets]
    by (simp add: u sd m upt pop_def)
qed


subsection \<open>Targets with the same url\<close>

text \<open>
  Claim C10. \<^verbatim>\<open>status_data\<close> is keyed by url, so targets with the same url share one
  entry. \<^verbatim>\<open>add_url\<close> appends a target whose id is the length of the list (an id that no
  registered target has) and sets the entry of its url to the initial one (status
  unknown, empty history, no last check), whatever was stored for that url before. When
  two targets have the same url, removing one of them deletes the entry of that url: the
  other target stays in the list, nothing is stored for its url, its history is served
  as empty, and the scheduler's next probe of it raises \<^verbatim>\<open>KeyError\<close>.
\<close>

theorem same_url_shares_state:
  "urls (add_url u nm s) =
     urls s @ [\<lparr>url = u, name = (case nm of None \<Rightarrow> u | Some n \<Rightarrow> n),
                id' = int (length (urls s))\<rparr>] \<and>
   int (length (urls (run acts))) \<notin> set (map id' (urls (run acts))) \<and>
   status_data (add_url u nm s) u = Some initial_entry \<and>
   initial_entry =
     \<lparr>status = Unknown, response_time = 0, status_code = None, error = None,
      last_check = None, history = []\<rparr> \<and>
   (i < length (urls s) \<and> j < length (urls s) \<and> i \<noteq> j \<and>
    url (urls s ! i) = url (urls s ! j) \<longrightarrow>
      (let s' = remove_url (int i) s; k = (if j < i then j else j - 1)
       in k < length (urls s') \<and>
          urls s' ! k = (urls s ! j)\<lparr>id' := int k\<rparr> \<and>
          status_data s' (url (urls s ! j)) = None \<and>
          serve_history_json s' (int k) = Reply_200 [] \<and>
          monitor_body io (urls s' ! k) s' = Inl (KeyError (url (urls s ! j)))))"
proof (intro conjI impI)
  show "urls (add_url u nm s) =
     urls s @ [\<lparr>url = u, name = (case nm of None \<Rightarrow> u | Some n \<Rightarrow> n),
                id' = int (length (urls s))\<rparr>]"
    by (rule urls_add_url)
  show "int (length (urls (run acts))) \<notin> set (map id' (urls (run acts)))"
    by (rule fresh_id)
  show "status_data (add_url u nm s) u = Some initial_entry"
    by (simp add: status_data_add_url)
  show "initial_entry =
     \<lparr>status = Unknown, response_time = 0, status_code = None, error = None,
      last_check = None, history = []\<rparr>"
    by (rule initial_entry_def)
next
  assume a: "i < length (urls s) \<and> j < length (urls s) \<and> i \<noteq> j \<and>
    url (urls s ! i) = url (urls s ! j)"
  define s' where "s' = remove_url (int i) s"
  define k where "k = (if j < i then j else j - 1)"
  have eq: "s' = s\<lparr>urls := update_ids (pop i (urls s)),
      status_data := (status_data s)(url (urls s ! i) := None)\<rparr>"
    using a remove_url_valid [of "int i" s] by (simp add: s'_def)
  have k: "k < length (urls s) - 1"
    using a by (auto simp: k_def)
  have len: "k < length (urls s')"
    using a k by (simp add: eq length_pop)
  have kj: "(if k < i then urls s ! k else urls s ! Suc k) = urls s ! j"
    using a by (auto simp: k_def)
  have nth: "urls s' ! k = (urls s ! j)\<lparr>id' := int k\<rparr>"
    using a k kj by (simp add: eq length_pop nth_pop)
  have sd: "status_data s' (url (urls s ! j)) = None"
    using a by (simp add: eq)
  have sh: "serve_history_json s' (int k) = Reply_200 []"
    using len nth sd by (simp add: serve_history_json_def)
  have mb: "monitor_body io (urls s' ! k) s' = Inl (KeyError (url (urls s ! j)))"
    using monitor_body_None [of s' "urls s' ! k" io] nth sd by simp
  from len nth sd sh mb
  show "let s' = remove_url (int i) s; k = (if j < i then j else j - 1)
       in k < length (urls s') \<and>
          urls s' ! k = (urls s ! j)\<lparr>id' := int k\<rparr> \<and>
          status_data s' (url (urls s ! j)) = None \<and>
          serve_history_json s' (int k) = Reply_200 [] \<and>
          monitor_body io (urls s' ! k) s' = Inl (KeyError (url (urls s ! j)))"
    by (simp only: Let_def s'_def [symmetric] k_def [symmetric] simp_thms)
qed

theorem same_url_shares_state_witness:
  "status_data probed_once ''http://a'' =
     Some \<lparr>status = Up, response_time = 125, status_code = Some 200, error = None,
       last_check = Some ''2024-01-01T00:00:00.000001'',
       history = [\<lparr>timestamp = ''2024-01-01T00:00:00.000002'', h_status = Up,
         h_response_time = 125, h_status_code = Some 200\<rparr>]\<rparr> \<and>
   status_data (add_url ''http://a'' (Some ''again'')
       probed_once) ''http://a'' =
     Some \<lparr>status = Unknown, response_time = 0, status_code = None, error = None,
       last_check = None, history = []\<rparr> \<and>
   map url (urls (add_url ''http://a'' (Some ''again'')
       probed_once)) = [''http://a'', ''http://a''] \<and>
   url (urls two_same ! 0) = url (urls two_same ! 1) \<and>
   urls (remove_url 0 two_same) ! 0 = \<lparr>url = ''http://a'', name = ''again'', id' = 0\<rparr> \<and>
   status_data (remove_url 0 two_same) ''http://a'' = None \<and>
   urls (remove_url 1 two_same) ! 0 = \<lparr>url = ''http://a'', name = ''http://a'', id' = 0\<rparr> \<and>
   status_data (remove_url 1 two_same) ''http://a'' = None \<and>
   serve_history_json (remove_url 1 two_same) 0 = Reply_200 [] \<and>
   monitor_body (observed (Response 200)) (urls (remove_url 1 two_same) ! 0)
     (remove_url 1 two_same) = Inl (KeyError ''http://a'')"
proof -
  show ?thesis
    using same_url_shares_state [where u = "''http://a''" and nm = "Some ''again''" and s = probed_once
        and acts = "[]" and i = 0 and j = 0]
      same_url_shares_state [where u = "''http://a''" and nm = None and s = two_same
        and acts = "[]" and i = 0 and j = 1 and io = "observed (Response 200)"]
      same_url_shares_state [where u = "''http://a''" and nm = None and s = two_same
        and acts = "[]" and i = 1 and j = 0 and io = "observed (Response 200)"]
    by (auto simp: status_data_probed_once urls_probed_once urls_two_same Let_def)
qed


subsection \<open>Starting and stopping\<close>

text \<open>
  Claim C7. \<^verbatim>\<open>start_monitoring\<close> on a monitor that is already monitoring, or that has
  no target, returns the monitor as it is. On an idle monitor with at least one target it
  sets \<^verbatim>\<open>monitoring\<close>, creates and starts the background thread, and changes nothing
  else; \<^verbatim>\<open>monitoring\<close> changes in no other case.
\<close>

theorem start_monitoring_guard:
  "(monitoring s \<or> urls s = [] \<longrightarrow> start_monitoring s = s) \<and>
   (\<not> monitoring s \<and> urls s \<noteq> [] \<longrightarrow>
      start_monitoring s = s\<lparr>monitoring := True, monitor_thread := Some Monitor_thread\<rparr> \<and>
      monitoring (start_monitoring s) \<and>
      monitor_thread (start_monitoring s) = Some Monitor_thread \<and>
      urls (start_monitoring s) = urls s \<and>
      status_data (start_monitoring s) = status_data s) \<and>
   (monitoring (start_monitoring s) \<noteq> monitoring s \<longrightarrow> \<not> monitoring s \<and> urls s \<noteq> [])"
  by (auto simp: start_monitoring_def)

theorem start_monitoring_guard_witness:
  "start_monitoring init_monitor = init_monitor \<and>
   start_monitoring (start_monitoring three_targets) = start_monitoring three_targets \<and>
   monitoring (start_monitoring three_targets) \<and>
   \<not> monitoring three_targets \<and>
   monitor_thread (start_monitoring three_targets) = Some Monitor_thread"
proof -
  have e: "urls init_monitor = []" "\<not> monitoring init_monitor"
    by (simp_all add: init_monitor_def)
  have t: "urls three_targets \<noteq> []" "\<not> monitoring three_targets"
    by (simp_all add: three_targets_def add_url_def init_monitor_def Let_def)
  show ?thesis
    using start_monitoring_guard [of init_monitor] start_monitoring_guard [of three_targets]
      start_monitoring_guard [of "start_monitoring three_targets"] e t
    by simp
qed

text \<open>
  Claim C8. \<^verbatim>\<open>stop_monitoring\<close> called twice gives the monitor that one call gives; the
  result is idle after one call and after two; on an idle monitor the call changes
  nothing; the targets, their states and the thread handle are never touched.
\<close>

theorem stop_monitoring_idempotent:
  "stop_monitoring (stop_monitoring s) = stop_monitoring s \<and>
   \<not> monitoring (stop_monitoring s) \<and>
   \<not> monitoring (stop_monitoring (stop_monitoring s)) \<and>
   (\<not> monitoring s \<longrightarrow> stop_monitoring s = s) \<and>
   urls (stop_monitoring s) = urls s \<and>
   status_data (stop_monitoring s) = status_data s \<and>
   monitor_thread (stop_monitoring s) = monitor_thread s"
  by (simp add: stop_monitoring_eq)

theorem stop_monitoring_idempotent_witness:
  "\<not> monitoring init_monitor \<and> stop_monitoring init_monitor = init_monitor \<and>
   monitoring (start_monitoring three_targets) \<and>
   \<not> monitoring (stop_monitoring (start_monitoring three_targets)) \<and>
   stop_monitoring (stop_monitoring (start_monitoring three_targets)) =
     stop_monitoring (start_monitoring three_targets)"
proof -
  have e: "\<not> monitoring init_monitor"
    by (simp add: init_monitor_def)
  have t: "monitoring (start_monitoring three_targets)"
    by (simp add: start_monitoring_def three_targets_def add_url_def init_monitor_def Let_def)
  show ?thesis
    using stop_monitoring_idempotent [of init_monitor]
      stop_monitoring_idempotent [of "start_monitoring three_targets"] e t
    by simp
qed


subsection \<open>Reading a history\<close>

text \<open>
  The history handler does not answer an id outside the list with an empty history: at
  id 7 or id -1 of a monitor with three targets, and at id 0 of the empty monitor, it
  sends the error 404.
\<close>

theorem history_of_invalid_id_counterexample:
  "\<not> (0 \<le> (7::int) \<and> 7 < int (length (urls three_targets))) \<and>
   serve_history_json three_targets 7 = Send_error 404 \<and>
   serve_history_json three_targets 7 \<noteq> Reply_200 [] \<and>
   serve_history_json three_targets (- 1) = Send_error 404 \<and>
   serve_history_json init_monitor 0 = Send_error 404"
  by (simp add: serve_history_json_def three_targets_def add_url_def init_monitor_def Let_def)

text \<open>
  Claim C6, amended. For every id that is not an index of the list of targets, the history
  handler sends the error 404 and no history. For an index of the list it replies with
  status 200 and the history of the target's url, which is the empty list when
  \<^verbatim>\<open>status_data\<close> has no entry for that url.
\<close>

theorem history_of_invalid_id:
  "(\<not> (0 \<le> i \<and> i < int (length (urls s))) \<longrightarrow> serve_history_json s i = Send_error 404) \<and>
   (0 \<le> i \<and> i < int (length (urls s)) \<longrightarrow>
      serve_history_json s i =
        Reply_200 (case status_data s (url (urls s ! nat i)) of None \<Rightarrow> [] | Some e \<Rightarrow> history e))"
  by (auto simp: serve_history_json_def Let_def)

theorem history_of_invalid_id_witness:
  "serve_history_json three_targets 3 = Send_error 404 \<and>
   serve_history_json three_targets 2 = Reply_200 [] \<and>
   serve_history_json (remove_url 0 (add_url ''http://a'' (Some ''again'') three_targets)) 2 = Reply_200 []"
proof -
  have u: "urls three_targets =
      [\<lparr>url = ''http://a'', name = ''http://a'', id' = 0\<rparr>,
       \<lparr>url = ''http://b'', name = ''B'', id' = 1\<rparr>,
       \<lparr>url = ''http://c'', name = ''http://c'', id' = 2\<rparr>]"
    by (simp add: three_targets_def urls_add_url init_monitor_def)
  have sd: "status_data three_targets ''http://c'' = Some initial_entry"
    by (simp add: three_targets_def status_data_add_url)
  have h: "history initial_entry = []"
    by (simp add: initial_entry_def)
  let ?s = "remove_url 0 (add_url ''http://a'' (Some ''again'') three_targets)"
  have u2: "urls ?s =
      [\<lparr>url = ''http://b'', name = ''B'', id' = 0\<rparr>,
       \<lparr>url = ''http://c'', name = ''http://c'', id' = 1\<rparr>,
       \<lparr>url = ''http://a'', name = ''again'', id' = 2\<rparr>]"
    by (simp add: remove_url_valid urls_add_url u pop_def update_ids_def)
  have sd2: "status_data ?s ''http://a'' = None"
    by (simp add: remove_url_valid urls_add_url u)
  show ?thesis
    using history_of_invalid_id [of 3 three_targets] history_of_invalid_id [of 2 three_targets]
      history_of_invalid_id [of 2 ?s]
    by (simp add: u sd h u2 sd2)
qed


end
